theory Spec2Isabelle
  imports Main
begin

section \<open>JavaScript values\<close>

text \<open>
  The handlers of \<^verbatim>\<open>src/http/handlers/response.js\<close> branch on the truthiness of values
  whose type the source leaves open (the response body is \<^verbatim>\<open>any\<close>, the request flags are
  optional). Values are therefore embedded as they are at run time. Numbers are the integers
  (status codes and application codes); an object is the list of its own properties, the
  first binding of a key being the property's value.
\<close>

datatype jsval =
    JUndefined
  | JNull
  | JBool bool
  | JNum int
  | JStr string
  | JArr "jsval list"
  | JObj "(string \<times> jsval) list"

type_synonym props = "(string \<times> jsval) list"

text \<open>ToBoolean: what \<^verbatim>\<open>if (v)\<close>, \<^verbatim>\<open>!v\<close>, \<^verbatim>\<open>&&\<close> and \<^verbatim>\<open>||\<close> test.\<close>

fun truthy :: "jsval \<Rightarrow> bool" where
  "truthy JUndefined = False"
| "truthy JNull = False"
| "truthy (JBool b) = b"
| "truthy (JNum n) = (n \<noteq> 0)"
| "truthy (JStr s) = (s \<noteq> [])"
| "truthy (JArr xs) = True"
| "truthy (JObj ps) = True"

fun nullish :: "jsval \<Rightarrow> bool" where
  "nullish JUndefined = True"
| "nullish JNull = True"
| "nullish v = False"

text \<open>\<^verbatim>\<open>a || b\<close> and \<^verbatim>\<open>a && b\<close> return one of their operands.\<close>

definition js_or :: "jsval \<Rightarrow> jsval \<Rightarrow> jsval" where
  "js_or a b = (if truthy a then a else b)"

definition js_and :: "jsval \<Rightarrow> jsval \<Rightarrow> jsval" where
  "js_and a b = (if truthy a then b else a)"

text \<open>Reading a property of an object: a missing property reads as \<^verbatim>\<open>undefined\<close>.\<close>

definition property :: "props \<Rightarrow> string \<Rightarrow> jsval" where
  "property ps k = (case map_of ps k of None \<Rightarrow> JUndefined | Some v \<Rightarrow> v)"

text \<open>
  Reading a property of a value that is neither \<^verbatim>\<open>undefined\<close> nor \<^verbatim>\<open>null\<close>. The handlers
  only read the keys \<^verbatim>\<open>code\<close>, \<^verbatim>\<open>data\<close> and the flag names, none of which a primitive or an
  array carries, so these read as \<^verbatim>\<open>undefined\<close> there.
\<close>

fun get :: "jsval \<Rightarrow> string \<Rightarrow> jsval" where
  "get (JObj ps) k = property ps k"
| "get v k = JUndefined"

datatype exn = TypeError

text \<open>
  \<^verbatim>\<open>v.k\<close> and \<^verbatim>\<open>const { k } = v\<close>: a TypeError when \<^verbatim>\<open>v\<close> is \<^verbatim>\<open>undefined\<close> or \<^verbatim>\<open>null\<close>.
\<close>

definition member :: "jsval \<Rightarrow> string \<Rightarrow> exn + jsval" where
  "member v k = (if nullish v then Inl TypeError else Inr (get v k))"

text \<open>
  The decimal text a template literal gives an integer: \<^verbatim>\<open>`${500}`\<close> is \<^verbatim>\<open>"500"\<close>.
\<close>

definition digit :: "nat \<Rightarrow> char" where
  "digit d = ''0123456789'' ! d"

function digits :: "nat \<Rightarrow> string" where
  "digits n = (if n < 10 then [digit n] else digits (n div 10) @ [digit (n mod 10)])"
  by pat_completeness auto
termination
  by (relation "measure id") auto

declare digits.simps [simp del]

definition number_text :: "int \<Rightarrow> string" where
  "number_text i = (if i < 0 then CHR ''-'' # digits (nat (- i)) else digits (nat i))"

text \<open>Reading a decimal numeral back, to state that \<open>digits\<close> writes the number it is given.\<close>

definition decimal :: "string \<Rightarrow> nat" where
  "decimal s = foldl (\<lambda>n c. 10 * n + (of_char c - 48)) 0 s"

section \<open>Responses, errors and the world they live in\<close>

text \<open>
  \<^verbatim>\<open>AxiosResponse\<close> as the JSDoc declares it. Its \<^verbatim>\<open>config\<close> is an object (the
  \<^verbatim>\<open>RequestConfig\<close> of the request), so it is held as that object's properties. The
  fields carry the prefix \<open>r_\<close>, those of an error \<open>e_\<close>, so that the handlers below can
  name their local variables as the source does.
\<close>

record AxiosResponse =
  r_data :: jsval
  r_status :: int
  r_statusText :: string
  r_headers :: jsval
  r_config :: props
  r_request :: jsval

text \<open>
  \<^verbatim>\<open>AxiosError\<close>: \<^verbatim>\<open>response\<close> is optional in the JSDoc (\<open>None\<close> is the absent field), and
  the handler itself tests \<^verbatim>\<open>config\<close> for truthiness, so \<^verbatim>\<open>config\<close> is any value.
\<close>

record AxiosError =
  e_message :: jsval
  e_code :: jsval
  e_config :: jsval
  e_request :: jsval
  e_response :: "AxiosResponse option"

text \<open>
  Handlers that display a message: the default \<^verbatim>\<open>errorMessage\<close>, and the entries of the
  \<^verbatim>\<open>codeHandlers\<close> table, told apart by a name.
\<close>

datatype handler = errorMessage | codeHandler string

datatype logged = Log AxiosResponse | Dir AxiosError

type_synonym addr = nat

text \<open>
  Error objects are mutated in place and compared by identity, so they live in a store:
  \<open>heap\<close> gives the object at an address and \<open>next_addr\<close> is the first address not handed
  out yet. \<open>shown\<close> records every call of a display handler with its argument, \<open>console\<close>
  what \<^verbatim>\<open>console.log\<close> and \<^verbatim>\<open>console.dir\<close> were given, both in order.
\<close>

record world =
  heap :: "addr \<Rightarrow> AxiosError"
  next_addr :: addr
  shown :: "(handler \<times> jsval) list"
  console :: "logged list"

text \<open>
  What a call produces: a returned value, the returned response object, a promise rejected
  with the error object at an address, or a thrown exception.
\<close>

datatype outcome =
    Value jsval
  | Response AxiosResponse
  | Rejected addr
  | Throws exn

text \<open>
  The helpers the handlers import from files that are not part of the sources at hand, taken
  as parameters: the two predicates give the truthiness of the helper's result, and
  \<open>codeHandlers\<close> gives the table's entry for a key, \<open>None\<close> where the lookup is falsy.
\<close>

record helpers =
  isStandardResponseBody :: "jsval \<Rightarrow> bool"
  isRightResponse :: "jsval \<Rightarrow> bool"
  getMessage :: "jsval \<Rightarrow> jsval \<Rightarrow> jsval \<Rightarrow> jsval"
  codeHandlers :: "jsval \<Rightarrow> handler option"

text \<open>
  Modelled from the spec: the constant \<^verbatim>\<open>HTTP_STATUS_CODE.OK\<close> of
  \<^verbatim>\<open>../config/http-code-status\<close>, the canonical OK code; the spec's scenarios resolve at
  status 200 and reject at status 500.
\<close>

definition HTTP_STATUS_CODE_OK :: int where
  "HTTP_STATUS_CODE_OK = 200"

text \<open>
  Modelled from the spec: \<^verbatim>\<open>createError\<close> of \<^verbatim>\<open>axios/lib/core/createError\<close>, which
  "constructs a standardized error value carrying message, request configuration, code,
  request, and response". It makes a new object, here at the next free address.
\<close>

definition createError ::
  "jsval \<Rightarrow> jsval \<Rightarrow> jsval \<Rightarrow> jsval \<Rightarrow> AxiosResponse \<Rightarrow> world \<Rightarrow> addr \<times> world" where
  "createError msg cfg cd req resp w =
     (next_addr w,
      w\<lparr>heap := (heap w)(next_addr w :=
             \<lparr>e_message = msg, e_code = cd, e_config = cfg, e_request = req, e_response = Some resp\<rparr>),
        next_addr := Suc (next_addr w)\<rparr>)"

definition invoke :: "handler \<Rightarrow> jsval \<Rightarrow> world \<Rightarrow> world" where
  "invoke h msg w = w\<lparr>shown := shown w @ [(h, msg)]\<rparr>"

definition console_log :: "AxiosResponse \<Rightarrow> world \<Rightarrow> world" where
  "console_log r w = w\<lparr>console := console w @ [Log r]\<rparr>"

definition console_dir :: "AxiosError \<Rightarrow> world \<Rightarrow> world" where
  "console_dir e w = w\<lparr>console := console w @ [Dir e]\<rparr>"

text \<open>\<^verbatim>\<open>return Promise.reject(createError(...))\<close>.\<close>

definition reject_new ::
  "jsval \<Rightarrow> jsval \<Rightarrow> jsval \<Rightarrow> jsval \<Rightarrow> AxiosResponse \<Rightarrow> world \<Rightarrow> outcome \<times> world" where
  "reject_new msg cfg cd req resp w =
     (case createError msg cfg cd req resp w of (a, w') \<Rightarrow> (Rejected a, w'))"

section \<open>The success path\<close>

text \<open>
  \<^verbatim>\<open>responseHandler(response, allResponse = false)\<close>, lines 55 to 123. The test
  \<^verbatim>\<open>!ignoreMsg && handler\<close> of line 78 is \<^verbatim>\<open>!ignoreMsg\<close> here: \<^verbatim>\<open>handler\<close> is a table entry
  or \<^verbatim>\<open>errorMessage\<close>, a function in either case.
\<close>

definition responseHandler ::
  "helpers \<Rightarrow> AxiosResponse \<Rightarrow> bool \<Rightarrow> world \<Rightarrow> outcome \<times> world" where
  "responseHandler H response allResponse w =
    (let data = r_data response;
         status = r_status response;
         statusText = r_statusText response;
         request = r_request response;
         config = r_config response;
         all = property config ''all'';
         external = property config ''external'';
         debug = property config ''debug'';
         handleError = property config ''handleError'';
         ignoreMsg = property config ''ignoreMsg'';
         w1 = (if truthy debug \<or> status \<noteq> HTTP_STATUS_CODE_OK
               then console_log response w else w)
     in
       if status = HTTP_STATUS_CODE_OK then
         if truthy all then (Response response, w1)
         else if truthy external \<or> \<not> isStandardResponseBody H data then
           (if allResponse then Response response else Value data, w1)
         else if isRightResponse H data then
           (if allResponse then (Response response, w1)
            else (case member data ''data'' of
                    Inl x \<Rightarrow> (Throws x, w1)
                  | Inr v \<Rightarrow> (Value v, w1)))
         else
           (case member data ''code'' of
              Inl x \<Rightarrow> (Throws x, w1)
            | Inr c \<Rightarrow>
               (let handler = (case codeHandlers H c of Some h \<Rightarrow> h | None \<Rightarrow> errorMessage);
                    errorMsg = getMessage H data (JNum status) (JStr statusText)
                in
                  if \<not> truthy handleError then
                    (let w2 = (if \<not> truthy ignoreMsg then invoke handler errorMsg w1 else w1)
                     in
                       if allResponse then (Response response, w2)
                       else reject_new errorMsg (JObj config)
                              (js_or (js_and data (get data ''code'')) (JNum status))
                              request response w2)
                  else
                    if allResponse then (Response response, w1)
                    else reject_new errorMsg (JObj config)
                           (js_or (js_and data (get data ''code'')) (JNum status))
                           request response w1))
       else
         reject_new (JStr (''Unexpected http status code: '' @ number_text status))
           (JObj config)
           (js_or (js_and data (get data ''code'')) (JNum status))
           request response w1)"

text \<open>\<^verbatim>\<open>needReturnResponseHandler\<close>, lines 129 to 137.\<close>

definition needReturnResponseHandler ::
  "helpers \<Rightarrow> AxiosResponse \<Rightarrow> world \<Rightarrow> outcome \<times> world" where
  "needReturnResponseHandler H response w =
    (case responseHandler H response True w of
       (Throws x, w') \<Rightarrow> (Throws x, w')
     | (res, w') \<Rightarrow> if res \<noteq> Value JUndefined then (res, w') else (Response response, w'))"

section \<open>The error path\<close>

text \<open>
  \<^verbatim>\<open>responseErrorHandler(error)\<close>, lines 151 to 190. The error is the object at address
  \<open>a\<close>. Lines 152 to 154 destructure \<^verbatim>\<open>error\<close>, then \<^verbatim>\<open>config\<close>, then \<^verbatim>\<open>response\<close>, before
  anything else runs.
\<close>

definition responseErrorHandler :: "helpers \<Rightarrow> addr \<Rightarrow> world \<Rightarrow> outcome \<times> world" where
  "responseErrorHandler H a w =
    (let error = heap w a;
         config = e_config error;
         request = e_request error
     in
       if nullish config then (Throws TypeError, w)
       else
         (let debug = get config ''debug'';
              handleError = get config ''handleError''
          in
            case e_response error of
              None \<Rightarrow> (Throws TypeError, w)
            | Some response \<Rightarrow>
               (let data = r_data response;
                    status = r_status response;
                    statusText = r_statusText response;
                    w1 = (if truthy debug then console_dir error w else w)
                in
                  if truthy config then
                    (let errorMsg =
                           js_or (js_or (getMessage H data (JNum status) (JStr statusText))
                                        (e_message error))
                                 (JStr ''Uncaught Error (in ibuild/http)'');
                         error1 = (if \<not> truthy (e_message error)
                                   then error\<lparr>e_message := errorMsg\<rparr> else error);
                         error2 = (if \<not> truthy (e_code error1) \<and> status \<noteq> 0
                                   then error1\<lparr>e_code := JNum status\<rparr> else error1);
                         w2 = w1\<lparr>heap := (heap w1)(a := error2)\<rparr>
                     in
                       if truthy handleError then (Rejected a, w2)
                       else
                         reject_new errorMsg config
                           (js_or (js_and data (get data ''code'')) (JNum status))
                           request response (invoke errorMessage errorMsg w2))
                  else (Value JUndefined, w1))))"

text \<open>\<^verbatim>\<open>needReturnResponseErrorHandler\<close>, lines 196 to 205.\<close>

definition needReturnResponseErrorHandler :: "helpers \<Rightarrow> addr \<Rightarrow> world \<Rightarrow> outcome \<times> world" where
  "needReturnResponseErrorHandler H a w =
    (case responseErrorHandler H a w of
       (Throws x, w') \<Rightarrow> (Throws x, w')
     | (res, w') \<Rightarrow> if res \<noteq> Value JUndefined then (res, w') else (Rejected a, w'))"

section \<open>Notions used to state the results\<close>

text \<open>
  A call resolves when it returns a value or the response, and it rejects when it returns a
  rejected promise; a call that throws does neither.
\<close>

fun resolved :: "outcome \<Rightarrow> bool" where
  "resolved (Value v) = True"
| "resolved (Response r) = True"
| "resolved out = False"

fun rejected :: "outcome \<Rightarrow> bool" where
  "rejected (Rejected a) = True"
| "rejected out = False"

text \<open>
  The message that lines 161 to 164 of \<^verbatim>\<open>responseErrorHandler\<close> derive, and the error
  object as lines 166 to 172 leave it: the message filled in when it was falsy, the code set
  to the status when the code was falsy and the status is not.
\<close>

definition errorMsg_of :: "helpers \<Rightarrow> AxiosError \<Rightarrow> AxiosResponse \<Rightarrow> jsval" where
  "errorMsg_of H error response =
     js_or (js_or (getMessage H (r_data response) (JNum (r_status response))
                     (JStr (r_statusText response)))
                  (e_message error))
           (JStr ''Uncaught Error (in ibuild/http)'')"

definition normalized :: "helpers \<Rightarrow> AxiosError \<Rightarrow> AxiosResponse \<Rightarrow> AxiosError" where
  "normalized H error response =
     error\<lparr>e_message := (if truthy (e_message error) then e_message error
                         else errorMsg_of H error response),
           e_code := (if \<not> truthy (e_code error) \<and> r_status response \<noteq> 0
                      then JNum (r_status response) else e_code error)\<rparr>"

section \<open>Sample inputs\<close>

text \<open>
  An instance of the helpers, used to run the handlers on concrete inputs: an envelope is an
  object with the four properties \<^verbatim>\<open>code\<close>, \<^verbatim>\<open>data\<close>, \<^verbatim>\<open>message\<close> and \<^verbatim>\<open>success\<close>, it
  is right when \<^verbatim>\<open>success\<close> is truthy, the message is the envelope's \<^verbatim>\<open>message\<close> or else the
  status text, and the table has one entry, for code 403.
\<close>

definition envelope_helpers :: helpers where
  "envelope_helpers =
     \<lparr>isStandardResponseBody = (\<lambda>v. case v of
          JObj ps \<Rightarrow>
            list_all (\<lambda>k. map_of ps k \<noteq> None) [''code'', ''data'', ''message'', ''success'']
        | _ \<Rightarrow> False),
      isRightResponse = (\<lambda>v. truthy (get v ''success'')),
      getMessage = (\<lambda>d s t. js_or (get d ''message'') t),
      codeHandlers = (\<lambda>c. if c = JNum 403 then Some (codeHandler ''403'') else None)\<rparr>"

text \<open>The body \<^verbatim>\<open>{code: 403, data: null, success: false, message: "Forbidden"}\<close>.\<close>

definition forbidden :: jsval where
  "forbidden = JObj [(''code'', JNum 403), (''data'', JNull), (''success'', JBool False),
                     (''message'', JStr ''Forbidden'')]"

definition a_response :: "int \<Rightarrow> jsval \<Rightarrow> props \<Rightarrow> AxiosResponse" where
  "a_response st body flags =
     \<lparr>r_data = body, r_status = st, r_statusText = ''text'', r_headers = JObj [],
      r_config = flags, r_request = JObj []\<rparr>"

definition an_error :: "jsval \<Rightarrow> jsval \<Rightarrow> jsval \<Rightarrow> AxiosResponse option \<Rightarrow> AxiosError" where
  "an_error msg cd cfg resp =
     \<lparr>e_message = msg, e_code = cd, e_config = cfg, e_request = JObj [], e_response = resp\<rparr>"

text \<open>The world that holds the given error objects, at the addresses \<open>0\<close>, \<open>1\<close>, ...\<close>

definition world_of :: "AxiosError list \<Rightarrow> world" where
  "world_of es =
     \<lparr>heap = (\<lambda>a. if a < length es then es ! a
                   else an_error JUndefined JUndefined JUndefined None),
      next_addr = length es, shown = [], console = []\<rparr>"

section \<open>Basic facts\<close>

lemma nullish_iff: "nullish v \<longleftrightarrow> v = JUndefined \<or> v = JNull"
  by (cases v) simp_all

lemma nullish_not_truthy: "nullish v \<Longrightarrow> \<not> truthy v"
  by (cases v) simp_all

lemma get_nullish: "nullish v \<Longrightarrow> get v k = JUndefined"
  by (cases v) simp_all

text \<open>
  \<^verbatim>\<open>(data && data.code) || status\<close> is \<^verbatim>\<open>data.code\<close> when the body and its code are truthy,
  and the status otherwise.
\<close>

lemma code_or_status:
  "js_or (js_and d (get d ''code'')) (JNum st) =
     (if truthy d \<and> truthy (get d ''code'') then get d ''code'' else JNum st)"
  by (simp add: js_or_def js_and_def)

lemma digit_value: "d < 10 \<Longrightarrow> of_char (digit d) - 48 = (d::nat)"
proof -
  assume "d < 10"
  then have "d \<in> {0, 1, 2, 3, 4, 5, 6, 7, 8, 9}" by auto
  then show ?thesis by (auto simp add: digit_def)
qed

lemma decimal_digits: "decimal (digits n) = n"
proof (induction n rule: digits.induct)
  case (1 n)
  show ?case
  proof (cases "n < 10")
    case True
    then show ?thesis
      by (subst digits.simps) (simp add: decimal_def digit_value)
  next
    case False
    with 1 have ih: "decimal (digits (n div 10)) = n div 10" by simp
    have "decimal (digits n) =
        10 * decimal (digits (n div 10)) + (of_char (digit (n mod 10)) - 48)"
      using False by (subst digits.simps) (simp add: decimal_def)
    also have "\<dots> = 10 * (n div 10) + n mod 10"
      by (simp add: ih digit_value)
    finally show ?thesis by simp
  qed
qed

lemma decimal_number_text: "0 \<le> i \<Longrightarrow> int (decimal (number_text i)) = i"
  by (simp add: number_text_def decimal_digits)

lemma number_text_500: "number_text 500 = ''500''"
  by (simp add: number_text_def digits.simps digit_def)

lemma reject_new_outcome:
  "fst (reject_new msg cfg cd req resp w) = Rejected (next_addr w)"
  by (simp add: reject_new_def createError_def)

lemma reject_new_error:
  "heap (snd (reject_new msg cfg cd req resp w)) (next_addr w) =
     \<lparr>e_message = msg, e_code = cd, e_config = cfg, e_request = req, e_response = Some resp\<rparr>"
  by (simp add: reject_new_def createError_def)

lemma reject_new_other:
  "a \<noteq> next_addr w \<Longrightarrow> heap (snd (reject_new msg cfg cd req resp w)) a = heap w a"
  by (simp add: reject_new_def createError_def)

lemma reject_new_shown:
  "shown (snd (reject_new msg cfg cd req resp w)) = shown w"
  by (simp add: reject_new_def createError_def)

lemma reject_new_next:
  "next_addr (snd (reject_new msg cfg cd req resp w)) = Suc (next_addr w)"
  by (simp add: reject_new_def createError_def)

section \<open>The success path: statuses other than OK\<close>

lemma responseHandler_not_ok:
  assumes "r_status r \<noteq> HTTP_STATUS_CODE_OK"
  shows "responseHandler H r allResponse w =
     reject_new (JStr (''Unexpected http status code: '' @ number_text (r_status r)))
       (JObj (r_config r))
       (js_or (js_and (r_data r) (get (r_data r) ''code'')) (JNum (r_status r)))
       (r_request r) r (console_log r w)"
  using assms by (simp add: responseHandler_def Let_def)

text \<open>
  C6. A response whose status is not the OK code is rejected, with an error whose message
  is \<^verbatim>\<open>Unexpected http status code: \<close> followed by the status in decimal, whatever the flags
  and \<^verbatim>\<open>allResponse\<close> are; at status 500 the message is
  \<^verbatim>\<open>Unexpected http status code: 500\<close>.
\<close>

theorem responseHandler_not_ok_message:
  assumes "r_status r \<noteq> HTTP_STATUS_CODE_OK"
  shows "\<exists>a. fst (responseHandler H r allResponse w) = Rejected a \<and>
     e_message (heap (snd (responseHandler H r allResponse w)) a) =
       JStr (''Unexpected http status code: '' @ number_text (r_status r)) \<and>
     (r_status r = 500 \<longrightarrow>
       e_message (heap (snd (responseHandler H r allResponse w)) a) =
         JStr ''Unexpected http status code: 500'')"
proof -
  let ?w = "console_log r w"
  have out: "fst (responseHandler H r allResponse w) = Rejected (next_addr ?w)"
    using assms by (simp add: responseHandler_not_ok reject_new_outcome)
  have msg: "e_message (heap (snd (responseHandler H r allResponse w)) (next_addr ?w)) =
       JStr (''Unexpected http status code: '' @ number_text (r_status r))"
    using assms by (simp add: responseHandler_not_ok reject_new_error)
  from out msg number_text_500 show ?thesis by auto
qed

theorem responseHandler_not_ok_message_witness:
  "r_status (a_response 500 forbidden []) \<noteq> HTTP_STATUS_CODE_OK \<and>
   (\<exists>a. fst (responseHandler envelope_helpers (a_response 500 forbidden []) False (world_of []))
           = Rejected a \<and>
        e_message (heap (snd (responseHandler envelope_helpers (a_response 500 forbidden [])
                                False (world_of []))) a) =
          JStr ''Unexpected http status code: 500'')"
proof -
  have st: "r_status (a_response 500 forbidden []) \<noteq> HTTP_STATUS_CODE_OK"
    by (simp add: a_response_def HTTP_STATUS_CODE_OK_def)
  have five: "r_status (a_response 500 forbidden []) = 500"
    by (simp add: a_response_def)
  from responseHandler_not_ok_message [OF st, of envelope_helpers False "world_of []"] five st
  show ?thesis by auto
qed

text \<open>
  C10. A response whose status is not the OK code is rejected with an error whose code is
  \<^verbatim>\<open>data.code\<close> when the body and its code are truthy, and the status otherwise; a body
  whose code is 0 gives the status.
\<close>

theorem responseHandler_not_ok_code:
  assumes "r_status r \<noteq> HTTP_STATUS_CODE_OK"
  shows "\<exists>a. fst (responseHandler H r allResponse w) = Rejected a \<and>
     e_code (heap (snd (responseHandler H r allResponse w)) a) =
       (if truthy (r_data r) \<and> truthy (get (r_data r) ''code'')
        then get (r_data r) ''code'' else JNum (r_status r)) \<and>
     (get (r_data r) ''code'' = JNum 0 \<longrightarrow>
       e_code (heap (snd (responseHandler H r allResponse w)) a) = JNum (r_status r))"
proof -
  let ?w = "console_log r w"
  have out: "fst (responseHandler H r allResponse w) = Rejected (next_addr ?w)"
    using assms by (simp add: responseHandler_not_ok reject_new_outcome)
  have cd: "e_code (heap (snd (responseHandler H r allResponse w)) (next_addr ?w)) =
       (if truthy (r_data r) \<and> truthy (get (r_data r) ''code'')
        then get (r_data r) ''code'' else JNum (r_status r))"
    using assms by (simp add: responseHandler_not_ok reject_new_error code_or_status)
  from out cd show ?thesis by auto
qed

theorem responseHandler_not_ok_code_witness:
  "r_status (a_response 500 (JObj [(''code'', JNum 0)]) []) \<noteq> HTTP_STATUS_CODE_OK \<and>
   get (r_data (a_response 500 (JObj [(''code'', JNum 0)]) [])) ''code'' = JNum 0 \<and>
   (\<exists>a. fst (responseHandler envelope_helpers (a_response 500 (JObj [(''code'', JNum 0)]) [])
             False (world_of [])) = Rejected a \<and>
        e_code (heap (snd (responseHandler envelope_helpers
                            (a_response 500 (JObj [(''code'', JNum 0)]) [])
                            False (world_of []))) a) = JNum 500)"
proof -
  let ?r = "a_response 500 (JObj [(''code'', JNum 0)]) []"
  have st: "r_status ?r \<noteq> HTTP_STATUS_CODE_OK"
    by (simp add: a_response_def HTTP_STATUS_CODE_OK_def)
  have c0: "get (r_data ?r) ''code'' = JNum 0"
    by (simp add: a_response_def property_def)
  have five: "r_status ?r = 500"
    by (simp add: a_response_def)
  from responseHandler_not_ok_code [OF st, of envelope_helpers False "world_of []"] c0 five st
  show ?thesis by auto
qed

section \<open>The success path: the OK status\<close>

lemma member_not_nullish: "\<not> nullish v \<Longrightarrow> member v k = Inr (get v k)"
  by (simp add: member_def)

text \<open>With \<^verbatim>\<open>allResponse\<close> set, every branch under the OK status returns the response.\<close>

lemma responseHandler_ok_allResponse:
  assumes "r_status r = HTTP_STATUS_CODE_OK"
    and "isStandardResponseBody H (r_data r) \<Longrightarrow> \<not> isRightResponse H (r_data r) \<Longrightarrow>
           \<not> nullish (r_data r)"
  shows "fst (responseHandler H r True w) = Response r"
  using assms by (auto simp add: responseHandler_def Let_def member_def)

text \<open>
  C4. An OK-status response whose body is a standard envelope (an object, so neither
  \<^verbatim>\<open>undefined\<close> nor \<^verbatim>\<open>null\<close>) that is not a right response resolves, with
  \<^verbatim>\<open>allResponse\<close> set, with the full response object, whatever \<^verbatim>\<open>handleError\<close> and the other
  flags are.
\<close>

theorem responseHandler_failure_allResponse:
  assumes "r_status r = HTTP_STATUS_CODE_OK"
    and "isStandardResponseBody H (r_data r)"
    and "\<not> nullish (r_data r)"
    and "\<not> isRightResponse H (r_data r)"
  shows "fst (responseHandler H r True w) = Response r \<and>
         resolved (fst (responseHandler H r True w)) \<and>
         \<not> rejected (fst (responseHandler H r True w))"
  using assms by (simp add: responseHandler_ok_allResponse)

theorem responseHandler_failure_allResponse_witness:
  "r_status (a_response 200 forbidden [(''handleError'', JBool True)]) = HTTP_STATUS_CODE_OK \<and>
   isStandardResponseBody envelope_helpers
     (r_data (a_response 200 forbidden [(''handleError'', JBool True)])) \<and>
   \<not> nullish (r_data (a_response 200 forbidden [(''handleError'', JBool True)])) \<and>
   \<not> isRightResponse envelope_helpers
     (r_data (a_response 200 forbidden [(''handleError'', JBool True)])) \<and>
   fst (responseHandler envelope_helpers (a_response 200 forbidden [(''handleError'', JBool True)])
          True (world_of [])) =
     Response (a_response 200 forbidden [(''handleError'', JBool True)])"
proof -
  let ?r = "a_response 200 forbidden [(''handleError'', JBool True)]"
  have h1: "r_status ?r = HTTP_STATUS_CODE_OK"
    by (simp add: a_response_def HTTP_STATUS_CODE_OK_def)
  have h2: "isStandardResponseBody envelope_helpers (r_data ?r)"
    by (simp add: a_response_def envelope_helpers_def forbidden_def)
  have h3: "\<not> nullish (r_data ?r)"
    by (simp add: a_response_def forbidden_def)
  have h4: "\<not> isRightResponse envelope_helpers (r_data ?r)"
    by (simp add: a_response_def envelope_helpers_def forbidden_def property_def)
  from responseHandler_failure_allResponse [OF h1 h2 h3 h4, of "world_of []"] h1 h2 h3 h4
  show ?thesis by simp
qed

text \<open>
  C9. When the envelope check accepts neither \<^verbatim>\<open>undefined\<close> nor \<^verbatim>\<open>null\<close>, the call
  \<^verbatim>\<open>responseHandler(response, true)\<close> returns the response object or a rejected promise for
  every response, never \<^verbatim>\<open>undefined\<close>, and \<^verbatim>\<open>needReturnResponseHandler\<close> returns exactly
  what that call returned.
\<close>

theorem needReturnResponseHandler_fallback_unused:
  assumes "\<not> isStandardResponseBody H JUndefined" and "\<not> isStandardResponseBody H JNull"
  shows "(fst (responseHandler H r True w) = Response r \<or>
          (\<exists>a. fst (responseHandler H r True w) = Rejected a)) \<and>
         fst (responseHandler H r True w) \<noteq> Value JUndefined \<and>
         needReturnResponseHandler H r w = responseHandler H r True w"
proof (cases "r_status r = HTTP_STATUS_CODE_OK")
  case True
  have "isStandardResponseBody H (r_data r) \<Longrightarrow> \<not> nullish (r_data r)"
    using assms by (auto simp add: nullish_iff)
  with True have out: "fst (responseHandler H r True w) = Response r"
    by (simp add: responseHandler_ok_allResponse)
  then have "needReturnResponseHandler H r w = responseHandler H r True w"
    by (cases "responseHandler H r True w") (simp add: needReturnResponseHandler_def)
  with out show ?thesis by simp
next
  case False
  then have out: "fst (responseHandler H r True w) = Rejected (next_addr (console_log r w))"
    by (simp add: responseHandler_not_ok reject_new_outcome)
  then have "needReturnResponseHandler H r w = responseHandler H r True w"
    by (cases "responseHandler H r True w") (simp add: needReturnResponseHandler_def)
  with out show ?thesis by simp
qed

theorem needReturnResponseHandler_fallback_unused_witness:
  "\<not> isStandardResponseBody envelope_helpers JUndefined \<and>
   \<not> isStandardResponseBody envelope_helpers JNull \<and>
   fst (responseHandler envelope_helpers (a_response 200 JUndefined []) True (world_of []))
     \<noteq> Value JUndefined \<and>
   needReturnResponseHandler envelope_helpers (a_response 200 JUndefined []) (world_of []) =
     responseHandler envelope_helpers (a_response 200 JUndefined []) True (world_of [])"
proof -
  have h1: "\<not> isStandardResponseBody envelope_helpers JUndefined"
    by (simp add: envelope_helpers_def)
  have h2: "\<not> isStandardResponseBody envelope_helpers JNull"
    by (simp add: envelope_helpers_def)
  from needReturnResponseHandler_fallback_unused
         [OF h1 h2, of "a_response 200 JUndefined []" "world_of []"] h1 h2
  show ?thesis by simp
qed

text \<open>
  C7, as the claim states it, fails: an OK-status response whose body is not a standard
  envelope comes back whole, not as its body, when the \<^verbatim>\<open>all\<close> flag is set, and also when
  \<^verbatim>\<open>allResponse\<close> is.
\<close>

theorem responseHandler_raw_body_counterexample:
  "r_status (a_response 200 (JArr [JStr ''A'', JStr ''B'']) [(''all'', JBool True)])
     = HTTP_STATUS_CODE_OK \<and>
   \<not> isStandardResponseBody envelope_helpers (JArr [JStr ''A'', JStr ''B'']) \<and>
   fst (responseHandler envelope_helpers
          (a_response 200 (JArr [JStr ''A'', JStr ''B'']) [(''all'', JBool True)])
          False (world_of [])) \<noteq> Value (JArr [JStr ''A'', JStr ''B'']) \<and>
   fst (responseHandler envelope_helpers
          (a_response 200 (JArr [JStr ''A'', JStr ''B'']) [(''all'', JBool True)])
          False (world_of [])) =
     Response (a_response 200 (JArr [JStr ''A'', JStr ''B'']) [(''all'', JBool True)]) \<and>
   fst (responseHandler envelope_helpers
          (a_response 200 (JArr [JStr ''A'', JStr ''B'']) []) True (world_of [])) =
     Response (a_response 200 (JArr [JStr ''A'', JStr ''B'']) [])"
  by (simp add: responseHandler_def Let_def a_response_def envelope_helpers_def
        HTTP_STATUS_CODE_OK_def property_def)

text \<open>
  C7, amended. An OK-status response whose body fails the standard-envelope check, with the
  \<^verbatim>\<open>all\<close> flag not set and \<^verbatim>\<open>allResponse\<close> false, returns the raw body exactly.
\<close>

theorem responseHandler_raw_body:
  assumes "r_status r = HTTP_STATUS_CODE_OK"
    and "\<not> isStandardResponseBody H (r_data r)"
    and "\<not> truthy (property (r_config r) ''all'')"
  shows "fst (responseHandler H r False w) = Value (r_data r)"
  using assms by (simp add: responseHandler_def Let_def)

theorem responseHandler_raw_body_witness:
  "r_status (a_response 200 (JArr [JStr ''A'', JStr ''B'']) []) = HTTP_STATUS_CODE_OK \<and>
   \<not> isStandardResponseBody envelope_helpers
       (r_data (a_response 200 (JArr [JStr ''A'', JStr ''B'']) [])) \<and>
   \<not> truthy (property (r_config (a_response 200 (JArr [JStr ''A'', JStr ''B'']) [])) ''all'') \<and>
   fst (responseHandler envelope_helpers (a_response 200 (JArr [JStr ''A'', JStr ''B'']) [])
          False (world_of [])) = Value (JArr [JStr ''A'', JStr ''B''])"
proof -
  let ?r = "a_response 200 (JArr [JStr ''A'', JStr ''B'']) []"
  have h1: "r_status ?r = HTTP_STATUS_CODE_OK"
    by (simp add: a_response_def HTTP_STATUS_CODE_OK_def)
  have h2: "\<not> isStandardResponseBody envelope_helpers (r_data ?r)"
    by (simp add: a_response_def envelope_helpers_def)
  have h3: "\<not> truthy (property (r_config ?r) ''all'')"
    by (simp add: a_response_def property_def)
  have body: "r_data ?r = JArr [JStr ''A'', JStr ''B'']"
    by (simp add: a_response_def)
  from responseHandler_raw_body [OF h1 h2 h3, of "world_of []"] h1 h2 h3 body
  show ?thesis by simp
qed

text \<open>
  C3, as the claim states it, fails: a standard envelope that is not a right response,
  under the OK status and with \<^verbatim>\<open>allResponse\<close> false, is not rejected when the \<^verbatim>\<open>all\<close> flag
  is set (the response is returned) nor when the \<^verbatim>\<open>external\<close> flag is set (the body is
  returned).
\<close>

theorem responseHandler_failure_counterexample:
  "r_status (a_response 200 forbidden [(''all'', JBool True)]) = HTTP_STATUS_CODE_OK \<and>
   isStandardResponseBody envelope_helpers forbidden \<and>
   \<not> isRightResponse envelope_helpers forbidden \<and>
   fst (responseHandler envelope_helpers (a_response 200 forbidden [(''all'', JBool True)])
          False (world_of [])) =
     Response (a_response 200 forbidden [(''all'', JBool True)]) \<and>
   fst (responseHandler envelope_helpers (a_response 200 forbidden [(''external'', JBool True)])
          False (world_of [])) = Value forbidden"
  by (simp add: responseHandler_def Let_def a_response_def envelope_helpers_def
        HTTP_STATUS_CODE_OK_def property_def forbidden_def)

text \<open>
  C3, amended. An OK-status response with neither the \<^verbatim>\<open>all\<close> nor the \<^verbatim>\<open>external\<close> flag
  set, whose body is a standard envelope (an object) that is not a right response, is
  rejected when \<^verbatim>\<open>allResponse\<close> is false, whatever \<^verbatim>\<open>handleError\<close> is; the error's code is
  \<^verbatim>\<open>data.code\<close> when that is truthy, and the status otherwise.
\<close>

theorem responseHandler_failure_rejects:
  assumes "r_status r = HTTP_STATUS_CODE_OK"
    and "\<not> truthy (property (r_config r) ''all'')"
    and "\<not> truthy (property (r_config r) ''external'')"
    and "isStandardResponseBody H (r_data r)"
    and "\<not> nullish (r_data r)"
    and "\<not> isRightResponse H (r_data r)"
  shows "\<exists>a. fst (responseHandler H r False w) = Rejected a \<and>
     e_code (heap (snd (responseHandler H r False w)) a) =
       (if truthy (get (r_data r) ''code'') then get (r_data r) ''code''
        else JNum (r_status r))"
proof -
  let ?m = "getMessage H (r_data r) (JNum (r_status r)) (JStr (r_statusText r))"
  let ?cd = "js_or (js_and (r_data r) (get (r_data r) ''code'')) (JNum (r_status r))"
  let ?w1 = "if truthy (property (r_config r) ''debug'') then console_log r w else w"
  have cd: "?cd =
      (if truthy (get (r_data r) ''code'') then get (r_data r) ''code'' else JNum (r_status r))"
    by (cases "r_data r") (simp_all add: js_or_def js_and_def)
  show ?thesis
  proof (cases "truthy (property (r_config r) ''handleError'')")
    case True
    with assms have eq: "responseHandler H r False w =
        reject_new ?m (JObj (r_config r)) ?cd (r_request r) r ?w1"
      by (simp add: responseHandler_def Let_def member_not_nullish)
    show ?thesis
      unfolding eq by (simp add: reject_new_outcome reject_new_error cd)
  next
    case False
    let ?h = "case codeHandlers H (get (r_data r) ''code'') of
                Some h \<Rightarrow> h | None \<Rightarrow> errorMessage"
    from False assms have eq: "responseHandler H r False w =
        reject_new ?m (JObj (r_config r)) ?cd (r_request r) r
          (if \<not> truthy (property (r_config r) ''ignoreMsg'') then invoke ?h ?m ?w1 else ?w1)"
      by (simp add: responseHandler_def Let_def member_not_nullish)
    show ?thesis
      unfolding eq by (simp add: reject_new_outcome reject_new_error cd)
  qed
qed

theorem responseHandler_failure_rejects_witness:
  "r_status (a_response 200 forbidden [(''handleError'', JBool True)]) = HTTP_STATUS_CODE_OK \<and>
   \<not> truthy (property (r_config (a_response 200 forbidden [(''handleError'', JBool True)]))
               ''all'') \<and>
   \<not> truthy (property (r_config (a_response 200 forbidden [(''handleError'', JBool True)]))
               ''external'') \<and>
   isStandardResponseBody envelope_helpers
     (r_data (a_response 200 forbidden [(''handleError'', JBool True)])) \<and>
   \<not> nullish (r_data (a_response 200 forbidden [(''handleError'', JBool True)])) \<and>
   \<not> isRightResponse envelope_helpers
       (r_data (a_response 200 forbidden [(''handleError'', JBool True)])) \<and>
   (\<exists>a. fst (responseHandler envelope_helpers
               (a_response 200 forbidden [(''handleError'', JBool True)])
               False (world_of [])) = Rejected a \<and>
        e_code (heap (snd (responseHandler envelope_helpers
                             (a_response 200 forbidden [(''handleError'', JBool True)])
                             False (world_of []))) a) = JNum 403)"
proof -
  let ?r = "a_response 200 forbidden [(''handleError'', JBool True)]"
  have h1: "r_status ?r = HTTP_STATUS_CODE_OK"
    by (simp add: a_response_def HTTP_STATUS_CODE_OK_def)
  have h2: "\<not> truthy (property (r_config ?r) ''all'')"
    by (simp add: a_response_def property_def)
  have h3: "\<not> truthy (property (r_config ?r) ''external'')"
    by (simp add: a_response_def property_def)
  have h4: "isStandardResponseBody envelope_helpers (r_data ?r)"
    by (simp add: a_response_def envelope_helpers_def forbidden_def)
  have h5: "\<not> nullish (r_data ?r)"
    by (simp add: a_response_def forbidden_def)
  have h6: "\<not> isRightResponse envelope_helpers (r_data ?r)"
    by (simp add: a_response_def envelope_helpers_def forbidden_def property_def)
  have cd: "get (r_data ?r) ''code'' = JNum 403"
    by (simp add: a_response_def forbidden_def property_def)
  from responseHandler_failure_rejects [OF h1 h2 h3 h4 h5 h6, of "world_of []"]
    h1 h2 h3 h4 h5 h6 cd
  show ?thesis by simp
qed

section \<open>The error path\<close>

lemma truthy_not_nullish: "truthy v \<Longrightarrow> \<not> nullish v"
  by (cases v) simp_all

lemma heap_world_of: "a < length es \<Longrightarrow> heap (world_of es) a = es ! a"
  by (simp add: world_of_def)

lemma shown_console_log: "shown (console_log r w) = shown w"
  by (simp add: console_log_def)

lemma shown_console_dir: "shown (console_dir e w) = shown w"
  by (simp add: console_dir_def)

lemma shown_invoke: "shown (invoke h m w) = shown w @ [(h, m)]"
  by (simp add: invoke_def)

text \<open>
  C8. An error whose \<^verbatim>\<open>config\<close> is absent (\<^verbatim>\<open>undefined\<close>, or \<^verbatim>\<open>null\<close>) or whose
  \<^verbatim>\<open>response\<close> is absent makes \<^verbatim>\<open>responseErrorHandler\<close> throw a TypeError at the
  destructuring of lines 153 and 154, before anything is logged, displayed or changed, and
  \<^verbatim>\<open>needReturnResponseErrorHandler\<close> throws with it.
\<close>

theorem responseErrorHandler_throws:
  assumes "nullish (e_config (heap w a)) \<or> e_response (heap w a) = None"
  shows "responseErrorHandler H a w = (Throws TypeError, w) \<and>
         needReturnResponseErrorHandler H a w = (Throws TypeError, w)"
  using assms
  by (auto simp add: responseErrorHandler_def needReturnResponseErrorHandler_def Let_def)

theorem responseErrorHandler_throws_witness:
  "(nullish (e_config (heap (world_of [an_error (JStr ''timeout'') (JStr ''ECONNABORTED'')
                                          (JObj []) None]) 0)) \<or>
    e_response (heap (world_of [an_error (JStr ''timeout'') (JStr ''ECONNABORTED'')
                                  (JObj []) None]) 0) = None) \<and>
   fst (responseErrorHandler envelope_helpers 0
          (world_of [an_error (JStr ''timeout'') (JStr ''ECONNABORTED'') (JObj []) None]))
     = Throws TypeError \<and>
   fst (needReturnResponseErrorHandler envelope_helpers 0
          (world_of [an_error (JStr ''timeout'') (JStr ''ECONNABORTED'') (JObj []) None]))
     = Throws TypeError"
proof -
  let ?w = "world_of [an_error (JStr ''timeout'') (JStr ''ECONNABORTED'') (JObj []) None]"
  have h: "nullish (e_config (heap ?w 0)) \<or> e_response (heap ?w 0) = None"
    by (simp add: heap_world_of an_error_def)
  from responseErrorHandler_throws [OF h, of envelope_helpers] h
  show ?thesis by simp
qed

text \<open>
  C1, at the input the claim is about. The error has no \<^verbatim>\<open>config\<close> and carries a response:
  \<^verbatim>\<open>responseErrorHandler\<close> does not return \<^verbatim>\<open>undefined\<close>, it throws, and so does
  \<^verbatim>\<open>needReturnResponseErrorHandler\<close>, whose fallback is never reached; the world is left
  as it was.
\<close>

theorem responseErrorHandler_config_undefined:
  "responseErrorHandler envelope_helpers 0
     (world_of [an_error (JStr ''Network Error'') JUndefined JUndefined
                  (Some (a_response 500 forbidden []))]) =
     (Throws TypeError,
      world_of [an_error (JStr ''Network Error'') JUndefined JUndefined
                  (Some (a_response 500 forbidden []))]) \<and>
   needReturnResponseErrorHandler envelope_helpers 0
     (world_of [an_error (JStr ''Network Error'') JUndefined JUndefined
                  (Some (a_response 500 forbidden []))]) =
     (Throws TypeError,
      world_of [an_error (JStr ''Network Error'') JUndefined JUndefined
                  (Some (a_response 500 forbidden []))])"
  by (simp add: responseErrorHandler_def needReturnResponseErrorHandler_def Let_def
        heap_world_of an_error_def)

text \<open>
  The fallback of \<^verbatim>\<open>needReturnResponseErrorHandler\<close> is reached only with a \<^verbatim>\<open>config\<close> that
  is falsy without being \<^verbatim>\<open>undefined\<close> or \<^verbatim>\<open>null\<close>, such as \<^verbatim>\<open>false\<close>: then the handler
  returns \<^verbatim>\<open>undefined\<close> and the wrapper rejects with the error as it was.
\<close>

lemma responseErrorHandler_falsy_config:
  assumes "\<not> nullish (e_config (heap w a))" and "\<not> truthy (e_config (heap w a))"
    and "e_response (heap w a) = Some resp"
  shows "responseErrorHandler H a w =
     (Value JUndefined,
      if truthy (get (e_config (heap w a)) ''debug'') then console_dir (heap w a) w else w)"
  using assms by (simp add: responseErrorHandler_def Let_def)

lemma needReturnResponseErrorHandler_falsy_config:
  assumes "\<not> nullish (e_config (heap w a))" and "\<not> truthy (e_config (heap w a))"
    and "e_response (heap w a) = Some resp"
  shows "fst (needReturnResponseErrorHandler H a w) = Rejected a \<and>
         heap (snd (needReturnResponseErrorHandler H a w)) a = heap w a"
  using assms
  by (simp add: needReturnResponseErrorHandler_def responseErrorHandler_falsy_config
        console_dir_def)

subsection \<open>An error that carries a config object and a response\<close>

text \<open>
  Past the destructuring, with a truthy \<^verbatim>\<open>config\<close>: the handler writes the normalized
  message and code into the error object, and then either rejects with that same object
  (\<^verbatim>\<open>handleError\<close> set) or displays the message and rejects with a new one.
\<close>

lemma responseErrorHandler_handleError:
  assumes "truthy (e_config (heap w a))"
    and "e_response (heap w a) = Some resp"
    and "truthy (get (e_config (heap w a)) ''handleError'')"
  shows "responseErrorHandler H a w =
     (Rejected a,
      (if truthy (get (e_config (heap w a)) ''debug'') then console_dir (heap w a) w else w)
        \<lparr>heap := (heap w)(a := normalized H (heap w a) resp)\<rparr>)"
  using assms truthy_not_nullish [OF assms(1)]
  by (simp add: responseErrorHandler_def Let_def normalized_def errorMsg_of_def console_dir_def)

lemma responseErrorHandler_default:
  assumes "truthy (e_config (heap w a))"
    and "e_response (heap w a) = Some resp"
    and "\<not> truthy (get (e_config (heap w a)) ''handleError'')"
  shows "responseErrorHandler H a w =
     reject_new (errorMsg_of H (heap w a) resp) (e_config (heap w a))
       (js_or (js_and (r_data resp) (get (r_data resp) ''code'')) (JNum (r_status resp)))
       (e_request (heap w a)) resp
       (invoke errorMessage (errorMsg_of H (heap w a) resp)
          ((if truthy (get (e_config (heap w a)) ''debug'') then console_dir (heap w a) w else w)
             \<lparr>heap := (heap w)(a := normalized H (heap w a) resp)\<rparr>))"
  using assms truthy_not_nullish [OF assms(1)]
  by (simp add: responseErrorHandler_def Let_def normalized_def errorMsg_of_def console_dir_def)

lemma responseErrorHandler_rejects_original:
  assumes "truthy (e_config (heap w a))"
    and "e_response (heap w a) = Some resp"
    and "truthy (get (e_config (heap w a)) ''handleError'')"
  shows "fst (responseErrorHandler H a w) = Rejected a \<and>
         heap (snd (responseErrorHandler H a w)) a = normalized H (heap w a) resp \<and>
         next_addr (snd (responseErrorHandler H a w)) = next_addr w \<and>
         shown (snd (responseErrorHandler H a w)) = shown w"
  by (simp add: responseErrorHandler_handleError [OF assms] console_dir_def)

lemma responseErrorHandler_rejects_new:
  assumes "truthy (e_config (heap w a))"
    and "e_response (heap w a) = Some resp"
    and "\<not> truthy (get (e_config (heap w a)) ''handleError'')"
    and "a < next_addr w"
  shows "fst (responseErrorHandler H a w) = Rejected (next_addr w) \<and>
         next_addr w \<noteq> a \<and>
         heap (snd (responseErrorHandler H a w)) (next_addr w) =
           \<lparr>e_message = errorMsg_of H (heap w a) resp,
            e_code = (if truthy (r_data resp) \<and> truthy (get (r_data resp) ''code'')
                      then get (r_data resp) ''code'' else JNum (r_status resp)),
            e_config = e_config (heap w a), e_request = e_request (heap w a),
            e_response = Some resp\<rparr> \<and>
         heap (snd (responseErrorHandler H a w)) a = normalized H (heap w a) resp \<and>
         shown (snd (responseErrorHandler H a w)) =
           shown w @ [(errorMessage, errorMsg_of H (heap w a) resp)]"
proof -
  let ?w1 = "if truthy (get (e_config (heap w a)) ''debug'') then console_dir (heap w a) w else w"
  let ?w2 = "invoke errorMessage (errorMsg_of H (heap w a) resp)
               (?w1\<lparr>heap := (heap w)(a := normalized H (heap w a) resp)\<rparr>)"
  have n: "next_addr ?w2 = next_addr w"
    by (simp add: invoke_def console_dir_def)
  have s: "shown ?w2 = shown w @ [(errorMessage, errorMsg_of H (heap w a) resp)]"
    by (simp add: invoke_def console_dir_def)
  have h: "heap ?w2 a = normalized H (heap w a) resp"
    by (simp add: invoke_def)
  from assms(4) have ne: "a \<noteq> next_addr ?w2" using n by simp
  have eq: "responseErrorHandler H a w =
     reject_new (errorMsg_of H (heap w a) resp) (e_config (heap w a))
       (js_or (js_and (r_data resp) (get (r_data resp) ''code'')) (JNum (r_status resp)))
       (e_request (heap w a)) resp ?w2"
    by (rule responseErrorHandler_default [OF assms(1-3)])
  have 1: "fst (responseErrorHandler H a w) = Rejected (next_addr w)"
    unfolding eq by (simp add: reject_new_outcome n)
  have 2: "heap (snd (responseErrorHandler H a w)) (next_addr w) =
           \<lparr>e_message = errorMsg_of H (heap w a) resp,
            e_code = (if truthy (r_data resp) \<and> truthy (get (r_data resp) ''code'')
                      then get (r_data resp) ''code'' else JNum (r_status resp)),
            e_config = e_config (heap w a), e_request = e_request (heap w a),
            e_response = Some resp\<rparr>"
    unfolding eq using reject_new_error [of _ _ _ _ _ ?w2]
    by (simp add: n code_or_status)
  have 3: "heap (snd (responseErrorHandler H a w)) a = normalized H (heap w a) resp"
    unfolding eq using reject_new_other [OF ne] h by simp
  have 4: "shown (snd (responseErrorHandler H a w)) =
           shown w @ [(errorMessage, errorMsg_of H (heap w a) resp)]"
    unfolding eq by (simp add: reject_new_shown s)
  from 1 2 3 4 assms(4) show ?thesis by simp
qed

text \<open>
  C5, at an error that has a \<^verbatim>\<open>config\<close> but no response, which is what a request that
  never got an answer produces: with \<^verbatim>\<open>handleError\<close> set the handler does not reject with
  the error, it throws; without \<^verbatim>\<open>handleError\<close> it throws as well, and \<^verbatim>\<open>errorMessage\<close> is
  not called.
\<close>

theorem responseErrorHandler_no_response:
  "fst (responseErrorHandler envelope_helpers 0
     (world_of [an_error (JStr ''Network Error'') JUndefined
                  (JObj [(''handleError'', JBool True)]) None])) = Throws TypeError \<and>
   fst (responseErrorHandler envelope_helpers 0
     (world_of [an_error (JStr ''Network Error'') JUndefined (JObj []) None]))
     = Throws TypeError \<and>
   shown (snd (responseErrorHandler envelope_helpers 0
     (world_of [an_error (JStr ''Network Error'') JUndefined (JObj []) None]))) = []"
  by (simp add: responseErrorHandler_def Let_def heap_world_of an_error_def world_of_def)

subsection \<open>One outcome and at most one displayed message per call\<close>

lemma responseHandler_outcome:
  assumes "\<not> isStandardResponseBody H JUndefined" and "\<not> isStandardResponseBody H JNull"
  shows "resolved (fst (responseHandler H r allResponse w)) \<noteq>
         rejected (fst (responseHandler H r allResponse w))"
proof -
  have obj: "isStandardResponseBody H (r_data r) \<Longrightarrow> \<not> nullish (r_data r)"
    using assms by (auto simp add: nullish_iff)
  then show ?thesis
    by (auto simp add: responseHandler_def Let_def member_def reject_new_outcome)
qed

lemma responseHandler_shown:
  "shown (snd (responseHandler H r allResponse w)) = shown w \<or>
   (\<not> truthy (property (r_config r) ''ignoreMsg'') \<and>
    \<not> truthy (property (r_config r) ''handleError'') \<and>
    (\<exists>h m. shown (snd (responseHandler H r allResponse w)) = shown w @ [(h, m)]))"
  by (auto simp add: responseHandler_def Let_def member_def reject_new_shown
        shown_console_log shown_invoke split: sum.splits)

lemma responseErrorHandler_cases:
  assumes "\<not> nullish (e_config (heap w a))" and "e_response (heap w a) = Some resp"
  obtains
    (falsy) "\<not> truthy (e_config (heap w a))"
      "fst (responseErrorHandler H a w) = Value JUndefined"
      "shown (snd (responseErrorHandler H a w)) = shown w"
  | (own) "truthy (e_config (heap w a))" "truthy (get (e_config (heap w a)) ''handleError'')"
      "fst (responseErrorHandler H a w) = Rejected a"
      "shown (snd (responseErrorHandler H a w)) = shown w"
  | (default) "truthy (e_config (heap w a))"
      "\<not> truthy (get (e_config (heap w a)) ''handleError'')"
      "fst (responseErrorHandler H a w) = Rejected (next_addr w)"
      "shown (snd (responseErrorHandler H a w)) =
         shown w @ [(errorMessage, errorMsg_of H (heap w a) resp)]"
proof (cases "truthy (e_config (heap w a))")
  case False
  with assms have "responseErrorHandler H a w =
     (Value JUndefined,
      if truthy (get (e_config (heap w a)) ''debug'') then console_dir (heap w a) w else w)"
    by (simp add: responseErrorHandler_falsy_config)
  with False show ?thesis by (intro falsy) (simp_all add: shown_console_dir)
next
  case True
  show ?thesis
  proof (cases "truthy (get (e_config (heap w a)) ''handleError'')")
    case h: True
    from responseErrorHandler_handleError [OF True assms(2) h, of H] True h
    show ?thesis by (intro own) (simp_all add: shown_console_dir)
  next
    case h: False
    from responseErrorHandler_default [OF True assms(2) h, of H] True h
    show ?thesis
      by (intro default)
        (simp_all add: reject_new_outcome reject_new_shown shown_invoke shown_console_dir
           invoke_def console_dir_def)
  qed
qed

lemma responseErrorHandler_outcome:
  assumes "\<not> nullish (e_config (heap w a))" and "e_response (heap w a) \<noteq> None"
  shows "resolved (fst (responseErrorHandler H a w)) \<noteq>
         rejected (fst (responseErrorHandler H a w))"
proof -
  from assms(2) obtain resp where "e_response (heap w a) = Some resp" by blast
  with assms(1) show ?thesis
    by (cases rule: responseErrorHandler_cases [where H = H]) simp_all
qed

lemma responseErrorHandler_shown:
  assumes "\<not> nullish (e_config (heap w a))" and "e_response (heap w a) \<noteq> None"
  shows "shown (snd (responseErrorHandler H a w)) = shown w \<or>
   (\<not> truthy (get (e_config (heap w a)) ''handleError'') \<and>
    (\<exists>m. shown (snd (responseErrorHandler H a w)) = shown w @ [(errorMessage, m)]))"
proof -
  from assms(2) obtain resp where "e_response (heap w a) = Some resp" by blast
  with assms(1) show ?thesis
    by (cases rule: responseErrorHandler_cases [where H = H]) simp_all
qed

text \<open>
  C2, as the claim states it, fails: \<^verbatim>\<open>responseErrorHandler\<close> does not read \<^verbatim>\<open>ignoreMsg\<close>.
  With \<^verbatim>\<open>ignoreMsg\<close> set and \<^verbatim>\<open>handleError\<close> not set, \<^verbatim>\<open>errorMessage\<close> is called.
\<close>

theorem responseErrorHandler_ignoreMsg_counterexample:
  "truthy (get (e_config (an_error (JStr []) JUndefined (JObj [(''ignoreMsg'', JBool True)])
                            (Some (a_response 500 forbidden [])))) ''ignoreMsg'') \<and>
   shown (world_of [an_error (JStr []) JUndefined (JObj [(''ignoreMsg'', JBool True)])
                      (Some (a_response 500 forbidden []))]) = [] \<and>
   shown (snd (responseErrorHandler envelope_helpers 0
      (world_of [an_error (JStr []) JUndefined (JObj [(''ignoreMsg'', JBool True)])
                   (Some (a_response 500 forbidden []))]))) =
     [(errorMessage, JStr ''Forbidden'')]"
  by (simp add: responseErrorHandler_def Let_def heap_world_of an_error_def world_of_def
      property_def reject_new_def createError_def invoke_def envelope_helpers_def
      a_response_def forbidden_def js_or_def js_and_def)

text \<open>
  C2, amended. A call of \<^verbatim>\<open>responseHandler\<close> (the envelope check accepting neither
  \<^verbatim>\<open>undefined\<close> nor \<^verbatim>\<open>null\<close>) either resolves or rejects, and calls a display handler at
  most once, not at all when \<^verbatim>\<open>ignoreMsg\<close> or \<^verbatim>\<open>handleError\<close> is set. A call of
  \<^verbatim>\<open>responseErrorHandler\<close> on an error that carries a \<^verbatim>\<open>config\<close> and a response either
  resolves or rejects, and calls a display handler at most once, not at all when
  \<^verbatim>\<open>handleError\<close> is set.
\<close>

theorem handlers_one_outcome_one_display:
  "(\<not> isStandardResponseBody H JUndefined \<and> \<not> isStandardResponseBody H JNull \<longrightarrow>
      resolved (fst (responseHandler H r allResponse w)) \<noteq>
        rejected (fst (responseHandler H r allResponse w)) \<and>
      (\<exists>new. shown (snd (responseHandler H r allResponse w)) = shown w @ new \<and>
         length new \<le> 1 \<and>
         (truthy (property (r_config r) ''ignoreMsg'') \<or>
          truthy (property (r_config r) ''handleError'') \<longrightarrow> new = []))) \<and>
   (\<not> nullish (e_config (heap w a)) \<and> e_response (heap w a) \<noteq> None \<longrightarrow>
      resolved (fst (responseErrorHandler H a w)) \<noteq>
        rejected (fst (responseErrorHandler H a w)) \<and>
      (\<exists>new. shown (snd (responseErrorHandler H a w)) = shown w @ new \<and>
         length new \<le> 1 \<and>
         (truthy (get (e_config (heap w a)) ''handleError'') \<longrightarrow> new = [])))"
proof -
  have s1: "\<exists>new. shown (snd (responseHandler H r allResponse w)) = shown w @ new \<and>
         length new \<le> 1 \<and>
         (truthy (property (r_config r) ''ignoreMsg'') \<or>
          truthy (property (r_config r) ''handleError'') \<longrightarrow> new = [])"
    using responseHandler_shown [of H r allResponse w]
  proof
    assume "shown (snd (responseHandler H r allResponse w)) = shown w"
    then show ?thesis by (intro exI [of _ "[]"]) simp
  next
    assume "\<not> truthy (property (r_config r) ''ignoreMsg'') \<and>
      \<not> truthy (property (r_config r) ''handleError'') \<and>
      (\<exists>h m. shown (snd (responseHandler H r allResponse w)) = shown w @ [(h, m)])"
    then obtain h m where
      "shown (snd (responseHandler H r allResponse w)) = shown w @ [(h, m)]"
      and "\<not> truthy (property (r_config r) ''ignoreMsg'')"
      and "\<not> truthy (property (r_config r) ''handleError'')"
      by blast
    then show ?thesis by (intro exI [of _ "[(h, m)]"]) simp
  qed
  have s2: "\<exists>new. shown (snd (responseErrorHandler H a w)) = shown w @ new \<and>
         length new \<le> 1 \<and>
         (truthy (get (e_config (heap w a)) ''handleError'') \<longrightarrow> new = [])"
    if "\<not> nullish (e_config (heap w a))" and "e_response (heap w a) \<noteq> None"
    using responseErrorHandler_shown [OF that, of H]
  proof
    assume "shown (snd (responseErrorHandler H a w)) = shown w"
    then show ?thesis by (intro exI [of _ "[]"]) simp
  next
    assume "\<not> truthy (get (e_config (heap w a)) ''handleError'') \<and>
      (\<exists>m. shown (snd (responseErrorHandler H a w)) = shown w @ [(errorMessage, m)])"
    then obtain m where
      "shown (snd (responseErrorHandler H a w)) = shown w @ [(errorMessage, m)]"
      and "\<not> truthy (get (e_config (heap w a)) ''handleError'')"
      by blast
    then show ?thesis by (intro exI [of _ "[(errorMessage, m)]"]) simp
  qed
  from s1 s2 responseHandler_outcome [of H r allResponse w]
    responseErrorHandler_outcome [of w a H]
  show ?thesis by blast
qed

theorem handlers_one_outcome_one_display_witness:
  "(\<not> isStandardResponseBody envelope_helpers JUndefined \<and>
    \<not> isStandardResponseBody envelope_helpers JNull) \<and>
   (\<not> nullish (e_config (heap (world_of [an_error (JStr []) JUndefined
                                             (JObj [(''handleError'', JBool True)])
                                             (Some (a_response 500 forbidden []))]) 0)) \<and>
    e_response (heap (world_of [an_error (JStr []) JUndefined
                                  (JObj [(''handleError'', JBool True)])
                                  (Some (a_response 500 forbidden []))]) 0) \<noteq> None) \<and>
   truthy (property (r_config (a_response 200 forbidden [(''ignoreMsg'', JBool True)]))
             ''ignoreMsg'') \<and>
   truthy (get (e_config (heap (world_of [an_error (JStr []) JUndefined
                                            (JObj [(''handleError'', JBool True)])
                                            (Some (a_response 500 forbidden []))]) 0))
             ''handleError'') \<and>
   resolved (fst (responseHandler envelope_helpers
                    (a_response 200 forbidden [(''ignoreMsg'', JBool True)]) False
                    (world_of [an_error (JStr []) JUndefined
                                 (JObj [(''handleError'', JBool True)])
                                 (Some (a_response 500 forbidden []))]))) \<noteq>
     rejected (fst (responseHandler envelope_helpers
                    (a_response 200 forbidden [(''ignoreMsg'', JBool True)]) False
                    (world_of [an_error (JStr []) JUndefined
                                 (JObj [(''handleError'', JBool True)])
                                 (Some (a_response 500 forbidden []))]))) \<and>
   shown (snd (responseHandler envelope_helpers
                 (a_response 200 forbidden [(''ignoreMsg'', JBool True)]) False
                 (world_of [an_error (JStr []) JUndefined
                              (JObj [(''handleError'', JBool True)])
                              (Some (a_response 500 forbidden []))]))) = [] \<and>
   resolved (fst (responseErrorHandler envelope_helpers 0
                    (world_of [an_error (JStr []) JUndefined
                                 (JObj [(''handleError'', JBool True)])
                                 (Some (a_response 500 forbidden []))]))) \<noteq>
     rejected (fst (responseErrorHandler envelope_helpers 0
                    (world_of [an_error (JStr []) JUndefined
                                 (JObj [(''handleError'', JBool True)])
                                 (Some (a_response 500 forbidden []))]))) \<and>
   shown (snd (responseErrorHandler envelope_helpers 0
                 (world_of [an_error (JStr []) JUndefined
                              (JObj [(''handleError'', JBool True)])
                              (Some (a_response 500 forbidden []))]))) = []"
proof -
  let ?r = "a_response 200 forbidden [(''ignoreMsg'', JBool True)]"
  let ?w = "world_of [an_error (JStr []) JUndefined (JObj [(''handleError'', JBool True)])
                        (Some (a_response 500 forbidden []))]"
  have h1: "\<not> isStandardResponseBody envelope_helpers JUndefined \<and>
            \<not> isStandardResponseBody envelope_helpers JNull"
    by (simp add: envelope_helpers_def)
  have h2: "\<not> nullish (e_config (heap ?w 0)) \<and> e_response (heap ?w 0) \<noteq> None"
    by (simp add: heap_world_of an_error_def)
  have f1: "truthy (property (r_config ?r) ''ignoreMsg'')"
    by (simp add: a_response_def property_def)
  have f2: "truthy (get (e_config (heap ?w 0)) ''handleError'')"
    by (simp add: heap_world_of an_error_def property_def)
  have w0: "shown ?w = []"
    by (simp add: world_of_def)
  from handlers_one_outcome_one_display [of envelope_helpers ?r False ?w 0] h1 h2 f1 f2 w0
  show ?thesis by auto
qed

end
